theory Spec2Isabelle
  imports Complex_Main
begin

section \<open>The moving map tab (app/tabs/moving\_map.py)\<close>

text \<open>
  Python floats are modelled as the reals: every arithmetic operation of the source is
  the exact operation on \<^typ>\<open>real\<close>, so rounding error, infinities and NaN are outside
  the model. Qt objects are records of the attributes the code reads and writes; a method
  that mutates its object takes the record and returns the updated one.
\<close>

subsection \<open>Helpers of app.lib.calc\<close>

datatype py_error = ZeroDivisionError

text \<open>
  Modelled from the spec: \<open>constrain\<close> of app/lib/calc.py is imported by the module but
  its file is not among the sources. The specification calls it a clamp at the boundary
  (``stores \<open>clamp(v, -180, 180)\<close>'', ``clamped at the boundary (not wrapped)'').
\<close>

definition constrain :: "real \<Rightarrow> real \<Rightarrow> real \<Rightarrow> real" where
  "constrain value min_value max_value =
     (if value < min_value then min_value
      else if max_value < value then max_value
      else value)"

text \<open>
  Modelled from the spec: \<open>normalize_value\<close> of app/lib/calc.py is imported by the module
  but its file is not among the sources. The specification says the value is ``linearly
  mapped and clamped to \<open>[0,1]\<close>'' over \<open>[min, max]\<close>, and that \<open>max == min\<close> is a division
  by zero.
\<close>

definition normalize_value :: "real \<Rightarrow> real \<Rightarrow> real \<Rightarrow> py_error + real" where
  "normalize_value value min_value max_value =
     (if max_value - min_value = 0 then Inl ZeroDivisionError
      else Inr (constrain ((value - min_value) / (max_value - min_value)) 0 1))"

text \<open>\<open>math.radians\<close>.\<close>

definition radians :: "real \<Rightarrow> real" where
  "radians deg = deg * pi / 180"

subsection \<open>Graphics items\<close>

text \<open>
  A \<open>QGraphicsItem\<close> as far as the module uses it: its position (\<open>setPos\<close>, \<open>moveBy\<close>,
  \<open>x()\<close>, \<open>y()\<close>) and its rotation (\<open>setRotation\<close>).
\<close>

record graphics_item =
  item_x :: real
  item_y :: real
  item_rotation :: real

definition setPos :: "real \<Rightarrow> real \<Rightarrow> ('a graphics_item_scheme) \<Rightarrow> ('a graphics_item_scheme)" where
  "setPos x y it = it\<lparr>item_x := x, item_y := y\<rparr>"

definition moveBy :: "real \<Rightarrow> real \<Rightarrow> ('a graphics_item_scheme) \<Rightarrow> ('a graphics_item_scheme)" where
  "moveBy dx dy it = it\<lparr>item_x := item_x it + dx, item_y := item_y it + dy\<rparr>"

definition setRotation :: "real \<Rightarrow> ('a graphics_item_scheme) \<Rightarrow> ('a graphics_item_scheme)" where
  "setRotation angle it = it\<lparr>item_rotation := angle\<rparr>"

text \<open>
  \<open>ResizedQGraphicsSvgItem\<close>: the bounding rectangle is the natural size of the SVG file
  (\<open>starting_width\<close>, \<open>starting_height\<close>, read from the file and so parameters here,
  both positive for the icons of the application), and \<open>base_scale\<close> fits it into the
  requested width and height.
\<close>

record resized_svg_item = graphics_item +
  bounding_width :: real
  bounding_height :: real
  base_scale :: real

definition ResizedQGraphicsSvgItem :: "real \<Rightarrow> real \<Rightarrow> real \<Rightarrow> real \<Rightarrow> resized_svg_item" where
  "ResizedQGraphicsSvgItem starting_width starting_height width height =
     (let scale_x = width / starting_width;
          scale_y = height / starting_height
      in \<lparr>item_x = 0, item_y = 0, item_rotation = 0,
          bounding_width = starting_width, bounding_height = starting_height,
          base_scale = min scale_x scale_y\<rparr>)"

subsection \<open>AttitudeIndicator\<close>

record attitude_indicator =
  roll :: real
  pitch :: real
  face_delta_x_new :: real
  face_delta_x_old :: real
  face_delta_y_new :: real
  face_delta_y_old :: real
  scale_x :: real
  scale_y :: real
  widget_width :: real
  widget_height :: real
  item_back :: graphics_item
  item_face :: graphics_item
  item_ring :: graphics_item

definition original_width :: real where
  "original_width = 240"

definition original_height :: real where
  "original_height = 240"

definition original_pizel_per_deg :: real where
  "original_pizel_per_deg = 1.7"

definition update_view :: "attitude_indicator \<Rightarrow> attitude_indicator" where
  "update_view a =
     (let sx = widget_width a / original_width;
          sy = widget_height a / original_height;
          back = setRotation (- roll a) (item_back a);
          ring = setRotation (- roll a) (item_ring a);
          face = setRotation (- roll a) (item_face a);
          roll_rad = radians (roll a);
          delta = original_pizel_per_deg * pitch a;
          dx_new = sx * delta * sin roll_rad;
          dy_new = sy * delta * cos roll_rad
      in a\<lparr>scale_x := sx, scale_y := sy,
           item_back := back, item_ring := ring,
           face_delta_x_new := dx_new, face_delta_y_new := dy_new,
           item_face := moveBy (dx_new - face_delta_x_old a) (dy_new - face_delta_y_old a) face\<rparr>)"

definition AttitudeIndicator_update :: "attitude_indicator \<Rightarrow> attitude_indicator" where
  "AttitudeIndicator_update a =
     (let a1 = update_view a
      in a1\<lparr>face_delta_x_old := face_delta_x_new a1,
            face_delta_y_old := face_delta_y_new a1\<rparr>)"

definition set_roll :: "real \<Rightarrow> attitude_indicator \<Rightarrow> attitude_indicator" where
  "set_roll v a = a\<lparr>roll := constrain v (-180) 180\<rparr>"

definition set_pitch :: "real \<Rightarrow> attitude_indicator \<Rightarrow> attitude_indicator" where
  "set_pitch v a = a\<lparr>pitch := constrain v (-25) 25\<rparr>"

definition AttitudeIndicator_reset :: "attitude_indicator \<Rightarrow> attitude_indicator" where
  "AttitudeIndicator_reset a = AttitudeIndicator_update (set_roll 0 (set_pitch 0 a))"

text \<open>
  The indicator as \<open>__init__\<close> leaves it: a fixed size of 240 by 240, the SVG layers at
  the scene's origin, and one call of \<open>_update_view\<close>.
\<close>

definition AttitudeIndicator_init :: attitude_indicator where
  "AttitudeIndicator_init =
     update_view
       \<lparr>roll = 0, pitch = 0,
        face_delta_x_new = 0, face_delta_x_old = 0,
        face_delta_y_new = 0, face_delta_y_old = 0,
        scale_x = 240 / original_width, scale_y = 240 / original_height,
        widget_width = 240, widget_height = 240,
        item_back = \<lparr>item_x = 0, item_y = 0, item_rotation = 0\<rparr>,
        item_face = \<lparr>item_x = 0, item_y = 0, item_rotation = 0\<rparr>,
        item_ring = \<lparr>item_x = 0, item_y = 0, item_rotation = 0\<rparr>\<rparr>"

subsection \<open>DroneAltitudeWidget\<close>

definition GROUND_WIDTH :: real where
  "GROUND_WIDTH = 3"

definition DRONE_ICON_WIDTH :: real where
  "DRONE_ICON_WIDTH = 80"

definition DRONE_ICON_HEIGHT :: real where
  "DRONE_ICON_HEIGHT = 50"

definition CANVAS_HEIGHT :: real where
  "CANVAS_HEIGHT = 240"

definition CANVAS_WIDTH :: real where
  "CANVAS_WIDTH = 120"

text \<open>
  The widget's side-view drone icon and the value shown by its \<open>QLCDNumber\<close>
  (\<open>altitude_number.display\<close>).
\<close>

record drone_altitude_widget =
  side_icon :: resized_svg_item
  altitude_number :: real

text \<open>
  The local \<open>norm_altitude\<close> of \<open>set_altitude\<close>: the argument is flipped
  (\<open>altitude *= -1\<close>) and then normalised over 0 to 20.
\<close>

definition norm_altitude :: "real \<Rightarrow> py_error + real" where
  "norm_altitude altitude = normalize_value (altitude * (-1)) 0 20"

definition set_altitude :: "real \<Rightarrow> drone_altitude_widget \<Rightarrow> py_error + drone_altitude_widget" where
  "set_altitude altitude0 w =
     (let altitude = altitude0 * (-1)
      in case normalize_value altitude 0 20 of
           Inl err \<Rightarrow> Inl err
         | Inr norm_alt \<Rightarrow>
             (let x = (CANVAS_WIDTH / 2) - (bounding_width (side_icon w) / 2);
                  half_ground_width = GROUND_WIDTH / 2;
                  usable_canvas_height = CANVAS_HEIGHT - half_ground_width;
                  drone_visual_height = bounding_height (side_icon w) * base_scale (side_icon w);
                  y = usable_canvas_height
                      - (norm_alt * usable_canvas_height)
                      - drone_visual_height
                      - ((bounding_height (side_icon w) - drone_visual_height) / 2)
              in Inr (w\<lparr>side_icon := setPos x y (side_icon w), altitude_number := altitude\<rparr>)))"

definition DroneAltitudeWidget_reset :: "drone_altitude_widget \<Rightarrow> py_error + drone_altitude_widget" where
  "DroneAltitudeWidget_reset w = set_altitude 0 w"

subsection \<open>The scene of the map and its track lines\<close>

definition PIXELS_PER_METER :: real where
  "PIXELS_PER_METER = 50"

text \<open>
  A \<open>QGraphicsLineItem\<close> made by \<open>canvas.addLine\<close>. Python compares and removes these
  objects by identity, so each carries the number the scene gave it when it was made.
  The pen is the colour's \<open>rgb_255\<close> with the alpha channel, and the width.
\<close>

record line_item =
  line_id :: nat
  line_x1 :: real
  line_y1 :: real
  line_x2 :: real
  line_y2 :: real
  pen_rgba :: "nat \<times> nat \<times> nat \<times> nat"
  pen_width :: nat

text \<open>The line items that are in the scene, in the order they were added.\<close>

record scene =
  scene_lines :: "line_item list"
  next_line_id :: nat

definition addLine ::
  "real \<Rightarrow> real \<Rightarrow> real \<Rightarrow> real \<Rightarrow> (nat \<times> nat \<times> nat \<times> nat) \<times> nat \<Rightarrow> scene \<Rightarrow> line_item \<times> scene" where
  "addLine x1 y1 x2 y2 pen sc =
     (let new_line = \<lparr>line_id = next_line_id sc,
                line_x1 = x1, line_y1 = y1, line_x2 = x2, line_y2 = y2,
                pen_rgba = fst pen, pen_width = snd pen\<rparr>
      in (new_line, sc\<lparr>scene_lines := scene_lines sc @ [new_line], next_line_id := Suc (next_line_id sc)\<rparr>))"

definition removeItem :: "line_item \<Rightarrow> scene \<Rightarrow> scene" where
  "removeItem track sc =
     sc\<lparr>scene_lines := filter (\<lambda>l. line_id l \<noteq> line_id track) (scene_lines sc)\<rparr>"

subsection \<open>Configuration\<close>

text \<open>
  \<open>UserConfig.max_moving_map_tracks\<close> and \<open>UserConfig.takeoff_height\<close> are read from
  app.lib.user_config, and the colour of a track from \<open>smear_color\<close> of app.lib.color
  between the two configured colours; none of these files is among the sources, so they
  are parameters: \<open>altitude_rgb c v\<close> stands for
  \<open>smear_color(MIN_COLOR, MAX_COLOR, value=v, min_value=0, max_value=20).rgb_255\<close>.
\<close>

record user_config =
  max_moving_map_tracks :: int
  takeoff_height :: real
  altitude_rgb :: "real \<Rightarrow> nat \<times> nat \<times> nat"

subsection \<open>MovingMapGraphicsView and MovingMapGraphicsWidget\<close>

text \<open>
  The view: whether panning is enabled (\<open>enable_panning\<close>, \<open>disable_panning\<close>) and the
  scene point last asked for by \<open>centerOn\<close>.
\<close>

record map_view =
  panning :: bool
  centered_on :: "real \<times> real"

definition enable_panning :: "map_view \<Rightarrow> map_view" where
  "enable_panning v = v\<lparr>panning := True\<rparr>"

definition disable_panning :: "map_view \<Rightarrow> map_view" where
  "disable_panning v = v\<lparr>panning := False\<rparr>"

text \<open>
  \<open>centerOn(item)\<close> centres the view on the middle of the item, which for an item whose
  transform origin is the middle of its bounding rectangle is its position plus half of
  the rectangle.
\<close>

definition centerOn :: "resized_svg_item \<Rightarrow> map_view \<Rightarrow> map_view" where
  "centerOn it v =
     v\<lparr>centered_on := (item_x it + bounding_width it / 2, item_y it + bounding_height it / 2)\<rparr>"

record moving_map_graphics_widget =
  tracks :: "line_item list"
  drone_airborne :: bool
  canvas :: scene
  view :: map_view
  drone_icon :: resized_svg_item
  follow_drone_flag :: bool

definition clear_tracks ::
  "moving_map_graphics_widget \<Rightarrow> line_item list option \<times> moving_map_graphics_widget" where
  \<comment> \<open>The first component is the value Python returns: the method has no \<open>return\<close>
      statement, so it is \<open>None\<close>.\<close>
  "clear_tracks w =
     (None, w\<lparr>canvas := foldl (\<lambda>sc track. removeItem track sc) (canvas w) (tracks w),
              tracks := []\<rparr>)"

definition follow_drone :: "bool \<Rightarrow> moving_map_graphics_widget \<Rightarrow> moving_map_graphics_widget" where
  "follow_drone follow w =
     (let w1 = w\<lparr>follow_drone_flag := follow\<rparr>
      in if follow_drone_flag w1
         then w1\<lparr>view := centerOn (drone_icon w1) (disable_panning (view w1))\<rparr>
         else w1\<lparr>view := enable_panning (view w1)\<rparr>)"

text \<open>
  The two coordinate changes, as \<open>update_drone_position\<close> and \<open>contextMenuEvent\<close> write
  them: the new centre of the drone icon for a position \<open>x\<close> north and \<open>y\<close> east, and the
  north and east of a scene point.
\<close>

definition new_drone_center :: "real \<Rightarrow> real \<Rightarrow> real \<times> real" where
  "new_drone_center x y = (y * PIXELS_PER_METER, - x * PIXELS_PER_METER)"

definition local_coord_ne :: "real \<times> real \<Rightarrow> real \<times> real" where
  "local_coord_ne local_coord =
     (- snd local_coord / PIXELS_PER_METER, fst local_coord / PIXELS_PER_METER)"

definition update_drone_position ::
  "user_config \<Rightarrow> real \<Rightarrow> real \<Rightarrow> real \<Rightarrow> moving_map_graphics_widget \<Rightarrow> moving_map_graphics_widget" where
  "update_drone_position cfg x y z w =
     (let current_drone_corner_x = item_x (drone_icon w);
          current_drone_corner_y = item_y (drone_icon w);
          current_drone_center_x = current_drone_corner_x + (bounding_width (drone_icon w) / 2);
          current_drone_center_y = current_drone_corner_y + (bounding_height (drone_icon w) / 2);
          new_drone_center_x = fst (new_drone_center x y);
          new_drone_center_y = snd (new_drone_center x y);
          new_drone_corner_x = new_drone_center_x - (bounding_width (drone_icon w) / 2);
          new_drone_corner_y = new_drone_center_y - (bounding_height (drone_icon w) / 2);
          (r, g, b) = altitude_rgb cfg (- z);
          track_pen = ((r, g, b, 200), 3);
          (track, canvas1) = addLine current_drone_center_x current_drone_center_y
                               new_drone_center_x new_drone_center_y track_pen (canvas w);
          tracks1 = tracks w @ [track];
          (tracks2, canvas2) =
            (if int (length tracks1) > max_moving_map_tracks cfg
             then (tl tracks1, removeItem (hd tracks1) canvas1)
             else (tracks1, canvas1));
          icon = setPos new_drone_corner_x new_drone_corner_y (drone_icon w)
      in w\<lparr>tracks := tracks2, canvas := canvas2, drone_icon := icon,
           view := (if follow_drone_flag w then centerOn icon (view w) else view w)\<rparr>)"

definition update_drone_attitude :: "real \<Rightarrow> moving_map_graphics_widget \<Rightarrow> moving_map_graphics_widget" where
  "update_drone_attitude yaw w = w\<lparr>drone_icon := setRotation yaw (drone_icon w)\<rparr>"

definition MovingMapGraphicsWidget_reset :: "moving_map_graphics_widget \<Rightarrow> moving_map_graphics_widget" where
  "MovingMapGraphicsWidget_reset w =
     (let icon1 = setPos (- bounding_width (drone_icon w) / 2) (- bounding_height (drone_icon w) / 2)
                    (drone_icon w);
          icon2 = setRotation 0 icon1
      in snd (clear_tracks (w\<lparr>drone_icon := icon2\<rparr>)))"

text \<open>
  The widget as \<open>__init__\<close> leaves it, for a top-view drone icon whose SVG file is
  \<open>icon_w\<close> by \<open>icon_h\<close>: no tracks, not airborne, the icon centred on the origin, and
  following the drone.
\<close>

definition MovingMapGraphicsWidget_init :: "real \<Rightarrow> real \<Rightarrow> moving_map_graphics_widget" where
  "MovingMapGraphicsWidget_init icon_w icon_h =
     (let icon0 = ResizedQGraphicsSvgItem icon_w icon_h 80 80;
          icon = setPos (- bounding_width icon0 / 2) (- bounding_height icon0 / 2) icon0
      in follow_drone True
           \<lparr>tracks = [], drone_airborne = False,
            canvas = \<lparr>scene_lines = [], next_line_id = 0\<rparr>,
            view = \<lparr>panning = False, centered_on = (0, 0)\<rparr>,
            drone_icon = icon, follow_drone_flag = True\<rparr>)"

subsection \<open>The context menu\<close>

text \<open>
  Python's \<open>round(v, 1)\<close> on the reals: the nearest multiple of one tenth, a tie going to
  the even one.
\<close>

definition py_round1 :: "real \<Rightarrow> real" where
  "py_round1 v =
     (let q = v * 10; f = \<lfloor>q\<rfloor>
      in (if q - of_int f < 1 / 2 then of_int f
          else if 1 / 2 < q - of_int f then of_int f + 1
          else if even f then of_int f
          else of_int f + 1) / 10)"

text \<open>
  The payloads of bell.avr.mqtt.payloads that the menu sends. \<open>AVRFCMGoToLocal\<close> has the
  fields \<open>n\<close>, \<open>e\<close>, \<open>d\<close>, \<open>hdg\<close> and \<open>relative\<close>, \<open>AVRFCMActionTakeoff\<close> the field
  \<open>rel_alt\<close>; \<open>None\<close> is Python's \<open>None\<close>.
\<close>

datatype payload =
    AVRFCMGoToLocal real real "real option" "real option" bool
  | AVRFCMActionTakeoff real

text \<open>
  The text of a menu entry: a fixed string, or the \<open>Goto\<close> entry with the two rounded
  numbers its f-string formats.
\<close>

datatype action_text = PlainText string | GotoText real real

text \<open>
  A \<open>QAction\<close> of the menu: its text, and the topic and payload that its \<open>triggered\<close>
  handler passes to \<open>send_message\<close> (no payload for the land action).
\<close>

record qaction =
  action_text :: action_text
  triggered :: "string \<times> payload option"

text \<open>
  \<open>contextMenuEvent\<close>, from the scene point \<open>local_coord\<close> under the pointer (Qt maps the
  event position to it): the actions added to the menu, in order.
\<close>

definition contextMenuEvent ::
  "user_config \<Rightarrow> real \<times> real \<Rightarrow> moving_map_graphics_widget \<Rightarrow> qaction list" where
  "contextMenuEvent cfg local_coord w =
     (let local_coord_n = fst (local_coord_ne local_coord);
          local_coord_e = snd (local_coord_ne local_coord)
      in if drone_airborne w
         then
           [\<lparr>action_text = GotoText (py_round1 local_coord_n) (py_round1 local_coord_e),
             triggered = (''avr/fcm/action/goto/local'',
                          Some (AVRFCMGoToLocal local_coord_n local_coord_e None None False))\<rparr>,
            \<lparr>action_text = PlainText ''Land at current positon'',
             triggered = (''avr/fcm/action/land'', None)\<rparr>]
         else
           [\<lparr>action_text = PlainText ''Takeoff'',
             triggered = (''avr/fcm/action/takeoff'',
                          Some (AVRFCMActionTakeoff (takeoff_height cfg)))\<rparr>])"

subsection \<open>MovingMapWidget\<close>

record moving_map_widget =
  tab_follow_drone :: bool
  follow_drone_button_text :: string
  moving_map_widget :: moving_map_graphics_widget
  attitude_indicator :: attitude_indicator
  altitude_indicator :: drone_altitude_widget

definition toggle_follow_drone :: "moving_map_widget \<Rightarrow> moving_map_widget" where
  "toggle_follow_drone t =
     (let t1 = t\<lparr>tab_follow_drone := \<not> tab_follow_drone t\<rparr>
      in if tab_follow_drone t1
         then t1\<lparr>follow_drone_button_text := ''Unfollow Drone'',
                 moving_map_widget := follow_drone True (moving_map_widget t1)\<rparr>
         else t1\<lparr>follow_drone_button_text := ''Follow Drone'',
                 moving_map_widget := follow_drone False (moving_map_widget t1)\<rparr>)"

text \<open>The payload \<open>AVRFCMAttitudeEulerDegrees\<close>, given by its roll, pitch and yaw.\<close>

definition update_euler_attitude :: "real \<Rightarrow> real \<Rightarrow> real \<Rightarrow> moving_map_widget \<Rightarrow> moving_map_widget" where
  "update_euler_attitude payload_roll payload_pitch payload_yaw t =
     t\<lparr>moving_map_widget := update_drone_attitude payload_yaw (moving_map_widget t),
       attitude_indicator :=
         AttitudeIndicator_update
           (set_pitch payload_pitch (set_roll payload_roll (attitude_indicator t)))\<rparr>"

text \<open>The payload \<open>AVRFCMPositionLocal\<close>, given by its \<open>n\<close>, \<open>e\<close> and \<open>d\<close>.\<close>

definition update_position_local ::
  "user_config \<Rightarrow> real \<times> real \<times> real \<Rightarrow> moving_map_widget \<Rightarrow> py_error + moving_map_widget" where
  "update_position_local cfg payload t =
     (case payload of (payload_n, payload_e, payload_d) \<Rightarrow>
        (let t1 = t\<lparr>moving_map_widget :=
                      update_drone_position cfg payload_n payload_e payload_d (moving_map_widget t)\<rparr>
         in case set_altitude payload_d (altitude_indicator t1) of
              Inl err \<Rightarrow> Inl err
            | Inr alt \<Rightarrow> Inr (t1\<lparr>altitude_indicator := alt\<rparr>)))"

definition update_airborne_state :: "bool \<Rightarrow> moving_map_widget \<Rightarrow> moving_map_widget" where
  "update_airborne_state payload_airborne t =
     t\<lparr>moving_map_widget := (moving_map_widget t)\<lparr>drone_airborne := payload_airborne\<rparr>\<rparr>"

definition clear :: "moving_map_widget \<Rightarrow> py_error + moving_map_widget" where
  "clear t =
     (let t1 = t\<lparr>attitude_indicator := AttitudeIndicator_reset (attitude_indicator t)\<rparr>;
          t2 = t1\<lparr>moving_map_widget := MovingMapGraphicsWidget_reset (moving_map_widget t1)\<rparr>
      in case DroneAltitudeWidget_reset (altitude_indicator t2) of
           Inl err \<Rightarrow> Inl err
         | Inr alt \<Rightarrow> Inr (t2\<lparr>altitude_indicator := alt\<rparr>))"

subsection \<open>Streams of position samples\<close>

text \<open>
  The messages of a topic are handled one after the other, each handler running to its
  end. \<open>update_drone_positions\<close> is the map widget after a list of position samples, and
  \<open>position_stream\<close> the whole tab after the same list arrived on
  \<open>avr/fcm/position/local\<close>.
\<close>

fun update_drone_positions ::
  "user_config \<Rightarrow> (real \<times> real \<times> real) list \<Rightarrow> moving_map_graphics_widget \<Rightarrow> moving_map_graphics_widget" where
  "update_drone_positions cfg [] w = w"
| "update_drone_positions cfg ((x, y, z) # ps) w =
     update_drone_positions cfg ps (update_drone_position cfg x y z w)"

fun position_stream ::
  "user_config \<Rightarrow> (real \<times> real \<times> real) list \<Rightarrow> moving_map_widget \<Rightarrow> py_error + moving_map_widget" where
  "position_stream cfg [] t = Inr t"
| "position_stream cfg (p # ps) t =
     (case update_position_local cfg p t of
        Inl err \<Rightarrow> Inl err
      | Inr t1 \<Rightarrow> position_stream cfg ps t1)"

text \<open>
  The line item that \<open>update_drone_position\<close> makes with \<open>canvas.addLine\<close> and appends to
  the tracks, and the items made by a list of samples in the order of the samples.
\<close>

definition drawn_track ::
  "user_config \<Rightarrow> real \<Rightarrow> real \<Rightarrow> real \<Rightarrow> moving_map_graphics_widget \<Rightarrow> line_item" where
  "drawn_track cfg x y z w =
     (case altitude_rgb cfg (- z) of (r, g, b) \<Rightarrow>
        fst (addLine (item_x (drone_icon w) + (bounding_width (drone_icon w) / 2))
                     (item_y (drone_icon w) + (bounding_height (drone_icon w) / 2))
                     (fst (new_drone_center x y)) (snd (new_drone_center x y))
                     ((r, g, b, 200), 3) (canvas w)))"

fun drawn_tracks ::
  "user_config \<Rightarrow> (real \<times> real \<times> real) list \<Rightarrow> moving_map_graphics_widget \<Rightarrow> line_item list" where
  "drawn_tracks cfg [] w = []"
| "drawn_tracks cfg ((x, y, z) # ps) w =
     drawn_track cfg x y z w # drawn_tracks cfg ps (update_drone_position cfg x y z w)"

subsection \<open>The coordinate transform as the specification words it\<close>

text \<open>
  The specification's \<open>toScreen\<close> and \<open>toWorld\<close> for a scale \<open>s\<close>, written from its
  words (\<open>x = e * scale\<close>, \<open>y = -n * scale\<close>; \<open>n = -y / scale\<close>, \<open>e = x / scale\<close>), to be
  compared with \<open>new_drone_center\<close> and \<open>local_coord_ne\<close> of the code.
\<close>

definition toScreen :: "real \<Rightarrow> real \<Rightarrow> real \<Rightarrow> real \<times> real" where
  "toScreen s n e = (e * s, - n * s)"

definition toWorld :: "real \<Rightarrow> real \<times> real \<Rightarrow> real \<times> real" where
  "toWorld s p = (- snd p / s, fst p / s)"

subsection \<open>Example values\<close>

text \<open>
  A configuration and a tab for the examples: up to ten tracks, takeoff to one meter,
  every track blue; the tab as it is built, with a top-view icon of 100 by 100 and a
  side-view icon of 160 by 100 that \<open>set_altitude(0)\<close> has put on the ground.
\<close>

definition example_config :: user_config where
  "example_config =
     \<lparr>max_moving_map_tracks = 10, takeoff_height = 1, altitude_rgb = (\<lambda>v. (0, 0, 255))\<rparr>"

definition example_tab :: moving_map_widget where
  "example_tab =
     \<lparr>tab_follow_drone = True, follow_drone_button_text = ''Unfollow Drone'',
      moving_map_widget = MovingMapGraphicsWidget_init 100 100,
      attitude_indicator = AttitudeIndicator_init,
      altitude_indicator =
        (let built = \<lparr>side_icon = ResizedQGraphicsSvgItem 160 100 DRONE_ICON_WIDTH DRONE_ICON_HEIGHT,
                      altitude_number = 0\<rparr>
         in case set_altitude 0 built of Inr on_ground \<Rightarrow> on_ground | Inl err \<Rightarrow> built)\<rparr>"

definition example_map :: moving_map_graphics_widget where
  "example_map =
     update_drone_position example_config 5 0 (-2) (MovingMapGraphicsWidget_init 100 100)"

section \<open>Properties\<close>

subsection \<open>Clamping of roll and pitch\<close>

lemma constrain_inside:
  "lo \<le> v \<Longrightarrow> v \<le> hi \<Longrightarrow> constrain v lo hi = v"
  by (simp add: constrain_def)

lemma constrain_bounds:
  "lo \<le> hi \<Longrightarrow> lo \<le> constrain v lo hi \<and> constrain v lo hi \<le> hi"
  by (simp add: constrain_def)

text \<open>
  C8: \<open>set_roll\<close> stores the input clamped to \<open>[-180, 180]\<close> and \<open>set_pitch\<close> stores it
  clamped to \<open>[-25, 25]\<close>: 200 and -200 are stored as 180 and -180, 40 and -40 as 25 and
  -25, and a value inside the range is stored as it is. Nothing else of the indicator
  changes.
\<close>

theorem set_roll_pitch_clamp:
  "roll (set_roll v a) = max (-180) (min 180 v)
   \<and> pitch (set_pitch v a) = max (-25) (min 25 v)
   \<and> roll (set_roll 200 a) = 180 \<and> roll (set_roll (-200) a) = -180
   \<and> pitch (set_pitch 40 a) = 25 \<and> pitch (set_pitch (-40) a) = -25
   \<and> (-180 \<le> v \<and> v \<le> 180 \<longrightarrow> roll (set_roll v a) = v)
   \<and> (-25 \<le> v \<and> v \<le> 25 \<longrightarrow> pitch (set_pitch v a) = v)
   \<and> pitch (set_roll v a) = pitch a \<and> roll (set_pitch v a) = roll a"
  by (simp add: set_roll_def set_pitch_def constrain_def)

lemma AttitudeIndicator_init_fields:
  "roll AttitudeIndicator_init = 0"
  "widget_width AttitudeIndicator_init = 240"
  "widget_height AttitudeIndicator_init = 240"
  "face_delta_x_old AttitudeIndicator_init = 0"
  "face_delta_y_old AttitudeIndicator_init = 0"
  "item_x (item_face AttitudeIndicator_init) = 0"
  "item_y (item_face AttitudeIndicator_init) = 0"
  by (simp_all add: AttitudeIndicator_init_def update_view_def Let_def setRotation_def moveBy_def)

theorem set_roll_pitch_clamp_witness:
  "(-180 \<le> (90::real) \<and> (90::real) \<le> 180) \<and> roll (set_roll 90 AttitudeIndicator_init) = 90
   \<and> (-25 \<le> (10::real) \<and> (10::real) \<le> 25) \<and> pitch (set_pitch 10 AttitudeIndicator_init) = 10
   \<and> roll (set_roll 200 AttitudeIndicator_init) = 180
   \<and> pitch (set_pitch (-40) AttitudeIndicator_init) = -25"
  using set_roll_pitch_clamp [of 90 AttitudeIndicator_init]
    set_roll_pitch_clamp [of 10 AttitudeIndicator_init]
  by simp

subsection \<open>One frame of the attitude indicator\<close>

text \<open>
  C6: one frame (\<open>update\<close>) of the attitude indicator, for any stored roll and pitch:
  with \<open>delta\<close> the pixels per degree (1.7) times the pitch, the new face deltas are the
  x scale times \<open>delta\<close> times the sine of the roll in radians, and the y scale times
  \<open>delta\<close> times its cosine; the back, ring and face layers are rotated to minus the roll;
  the face layer is moved by the new deltas minus the old ones; and afterwards the old
  deltas are the new ones. The scales are the widget's size over 240, and the roll and the
  pitch stay as they are.
\<close>

theorem attitude_frame:
  "let a' = AttitudeIndicator_update a;
       delta = original_pizel_per_deg * pitch a;
       dx_new = scale_x a' * delta * sin (radians (roll a));
       dy_new = scale_y a' * delta * cos (radians (roll a))
   in original_pizel_per_deg = 1.7
      \<and> radians (roll a) = roll a * pi / 180
      \<and> scale_x a' = widget_width a / 240 \<and> scale_y a' = widget_height a / 240
      \<and> face_delta_x_new a' = dx_new \<and> face_delta_y_new a' = dy_new
      \<and> item_rotation (item_back a') = - roll a
      \<and> item_rotation (item_ring a') = - roll a
      \<and> item_rotation (item_face a') = - roll a
      \<and> item_x (item_face a') = item_x (item_face a) + (dx_new - face_delta_x_old a)
      \<and> item_y (item_face a') = item_y (item_face a) + (dy_new - face_delta_y_old a)
      \<and> face_delta_x_old a' = dx_new \<and> face_delta_y_old a' = dy_new
      \<and> roll a' = roll a \<and> pitch a' = pitch a"
  by (simp add: AttitudeIndicator_update_def update_view_def Let_def setRotation_def moveBy_def
      original_pizel_per_deg_def original_width_def original_height_def radians_def)

theorem attitude_frame_witness:
  "face_delta_y_new (AttitudeIndicator_update (set_pitch 10 AttitudeIndicator_init)) = 17
   \<and> face_delta_x_new (AttitudeIndicator_update (set_pitch 10 AttitudeIndicator_init)) = 0
   \<and> item_y (item_face (AttitudeIndicator_update (set_pitch 10 AttitudeIndicator_init))) = 17
   \<and> face_delta_y_old (AttitudeIndicator_update (set_pitch 10 AttitudeIndicator_init)) = 17"
  using attitude_frame [of "set_pitch 10 AttitudeIndicator_init"]
  by (simp add: Let_def set_pitch_def constrain_def radians_def original_pizel_per_deg_def
      AttitudeIndicator_init_fields)

subsection \<open>The coordinate transform\<close>

lemma MovingMapGraphicsWidget_init_fields:
  "tracks (MovingMapGraphicsWidget_init iw ih) = []"
  "drone_airborne (MovingMapGraphicsWidget_init iw ih) = False"
  "follow_drone_flag (MovingMapGraphicsWidget_init iw ih) = True"
  "item_x (drone_icon (MovingMapGraphicsWidget_init iw ih)) = - iw / 2"
  "item_y (drone_icon (MovingMapGraphicsWidget_init iw ih)) = - ih / 2"
  "bounding_width (drone_icon (MovingMapGraphicsWidget_init iw ih)) = iw"
  "bounding_height (drone_icon (MovingMapGraphicsWidget_init iw ih)) = ih"
  "canvas (MovingMapGraphicsWidget_init iw ih) = \<lparr>scene_lines = [], next_line_id = 0\<rparr>"
  by (simp_all add: MovingMapGraphicsWidget_init_def follow_drone_def Let_def setPos_def
      ResizedQGraphicsSvgItem_def centerOn_def disable_panning_def)

text \<open>
  C1: for every north and east and every scale \<open>s > 0\<close>, going to the screen
  (\<open>x = e * s\<close>, \<open>y = -n * s\<close>) and back (\<open>n = -y / s\<close>, \<open>e = x / s\<close>) gives the north and
  east back. The program's two directions are these at the one scale
  \<open>PIXELS_PER_METER = 50\<close>: \<open>update_drone_position\<close> for a position \<open>n\<close>, \<open>e\<close> puts the
  centre of the drone icon, the end of the line it draws and (when following) the centre
  of the view at the screen point of \<open>n\<close>, \<open>e\<close>; the goto that \<open>contextMenuEvent\<close> offers
  for a scene point carries the north and east of that point; and so the goto offered at
  the drone's new centre carries \<open>n\<close> and \<open>e\<close> again. (On the reals the round trip is
  exact.)
\<close>

theorem transform_round_trip:
  "(0 < s \<longrightarrow> toWorld s (toScreen s n e) = (n, e))
   \<and> new_drone_center n e = toScreen PIXELS_PER_METER n e
   \<and> local_coord_ne p = toWorld PIXELS_PER_METER p
   \<and> PIXELS_PER_METER = 50
   \<and> local_coord_ne (new_drone_center n e) = (n, e)
   \<and> (item_x (drone_icon (update_drone_position cfg n e d w))
          + bounding_width (drone_icon (update_drone_position cfg n e d w)) / 2,
        item_y (drone_icon (update_drone_position cfg n e d w))
          + bounding_height (drone_icon (update_drone_position cfg n e d w)) / 2)
       = toScreen 50 n e
   \<and> (line_x2 (drawn_track cfg n e d w), line_y2 (drawn_track cfg n e d w)) = toScreen 50 n e
   \<and> (follow_drone_flag w \<longrightarrow>
        centered_on (view (update_drone_position cfg n e d w)) = toScreen 50 n e)
   \<and> (drone_airborne v \<longrightarrow>
        map triggered (contextMenuEvent cfg p v) =
          [(''avr/fcm/action/goto/local'',
            Some (AVRFCMGoToLocal (fst (toWorld 50 p)) (snd (toWorld 50 p)) None None False)),
           (''avr/fcm/action/land'', None)])
   \<and> (drone_airborne w \<longrightarrow>
        map triggered
          (contextMenuEvent cfg
             (item_x (drone_icon (update_drone_position cfg n e d w))
                + bounding_width (drone_icon (update_drone_position cfg n e d w)) / 2,
              item_y (drone_icon (update_drone_position cfg n e d w))
                + bounding_height (drone_icon (update_drone_position cfg n e d w)) / 2)
             (update_drone_position cfg n e d w)) =
          [(''avr/fcm/action/goto/local'', Some (AVRFCMGoToLocal n e None None False)),
           (''avr/fcm/action/land'', None)])"
proof -
  let ?w = "update_drone_position cfg n e d w"
  have pos: "item_x (drone_icon ?w) = e * 50 - bounding_width (drone_icon w) / 2"
    "item_y (drone_icon ?w) = - n * 50 - bounding_height (drone_icon w) / 2"
    "bounding_width (drone_icon ?w) = bounding_width (drone_icon w)"
    "bounding_height (drone_icon ?w) = bounding_height (drone_icon w)"
    "drone_airborne ?w = drone_airborne w"
    by (simp_all add: update_drone_position_def Let_def setPos_def new_drone_center_def
        PIXELS_PER_METER_def split: prod.splits)
  have ctr: "follow_drone_flag w \<longrightarrow> centered_on (view ?w) = (e * 50, - n * 50)"
    by (simp add: update_drone_position_def Let_def setPos_def new_drone_center_def
        centerOn_def PIXELS_PER_METER_def split: prod.splits)
  have ln: "line_x2 (drawn_track cfg n e d w) = e * 50"
    "line_y2 (drawn_track cfg n e d w) = - n * 50"
    by (simp_all add: drawn_track_def addLine_def Let_def new_drone_center_def
        PIXELS_PER_METER_def split: prod.splits)
  have menu: "\<And>q u. drone_airborne u \<Longrightarrow>
      map triggered (contextMenuEvent cfg q u) =
        [(''avr/fcm/action/goto/local'',
          Some (AVRFCMGoToLocal (- snd q / 50) (fst q / 50) None None False)),
         (''avr/fcm/action/land'', None)]"
    by (simp add: contextMenuEvent_def local_coord_ne_def Let_def PIXELS_PER_METER_def)
  have rt: "(0 < s \<longrightarrow> toWorld s (toScreen s n e) = (n, e))
      \<and> new_drone_center n e = toScreen PIXELS_PER_METER n e
      \<and> local_coord_ne p = toWorld PIXELS_PER_METER p
      \<and> PIXELS_PER_METER = 50
      \<and> local_coord_ne (new_drone_center n e) = (n, e)"
    by (simp add: toWorld_def toScreen_def new_drone_center_def local_coord_ne_def
        PIXELS_PER_METER_def)
  have c1: "(item_x (drone_icon ?w) + bounding_width (drone_icon ?w) / 2,
      item_y (drone_icon ?w) + bounding_height (drone_icon ?w) / 2) = toScreen 50 n e"
    by (simp add: pos toScreen_def)
  have c2: "(line_x2 (drawn_track cfg n e d w), line_y2 (drawn_track cfg n e d w)) = toScreen 50 n e"
    by (simp add: ln toScreen_def)
  have c3: "follow_drone_flag w \<longrightarrow> centered_on (view ?w) = toScreen 50 n e"
    using ctr by (simp add: toScreen_def)
  have c4: "drone_airborne v \<longrightarrow>
      map triggered (contextMenuEvent cfg p v) =
        [(''avr/fcm/action/goto/local'',
          Some (AVRFCMGoToLocal (fst (toWorld 50 p)) (snd (toWorld 50 p)) None None False)),
         (''avr/fcm/action/land'', None)]"
    by (simp add: menu toWorld_def)
  have c5: "drone_airborne w \<longrightarrow>
      map triggered
        (contextMenuEvent cfg
           (item_x (drone_icon ?w) + bounding_width (drone_icon ?w) / 2,
            item_y (drone_icon ?w) + bounding_height (drone_icon ?w) / 2) ?w) =
        [(''avr/fcm/action/goto/local'', Some (AVRFCMGoToLocal n e None None False)),
         (''avr/fcm/action/land'', None)]"
    by (simp add: menu pos)
  from rt c1 c2 c3 c4 c5 show ?thesis by (intro conjI) blast+
qed

theorem transform_round_trip_witness:
  "(0::real) < 50 \<and> toWorld 50 (toScreen 50 5 10) = (5, 10)
   \<and> new_drone_center 5 10 = (500, -250)
   \<and> local_coord_ne (500, -250) = (5, 10)
   \<and> drone_airborne ((MovingMapGraphicsWidget_init 100 100)\<lparr>drone_airborne := True\<rparr>)
   \<and> follow_drone_flag ((MovingMapGraphicsWidget_init 100 100)\<lparr>drone_airborne := True\<rparr>)
   \<and> centered_on (view (update_drone_position example_config 5 10 (-2)
          ((MovingMapGraphicsWidget_init 100 100)\<lparr>drone_airborne := True\<rparr>))) = (500, -250)
   \<and> map triggered
        (contextMenuEvent example_config (500, -250)
           (update_drone_position example_config 5 10 (-2)
              ((MovingMapGraphicsWidget_init 100 100)\<lparr>drone_airborne := True\<rparr>))) =
        [(''avr/fcm/action/goto/local'', Some (AVRFCMGoToLocal 5 10 None None False)),
         (''avr/fcm/action/land'', None)]"
  using transform_round_trip [where s = 50 and n = 5 and e = 10 and d = "-2" and p = "(500, -250)"
      and cfg = example_config
      and w = "(MovingMapGraphicsWidget_init 100 100)\<lparr>drone_airborne := True\<rparr>"
      and v = "(MovingMapGraphicsWidget_init 100 100)\<lparr>drone_airborne := True\<rparr>"]
  by (auto simp add: toScreen_def toWorld_def PIXELS_PER_METER_def MovingMapGraphicsWidget_init_fields)

subsection \<open>Altitude normalisation\<close>

lemma norm_altitude_eq: "norm_altitude d = Inr (constrain (- d / 20) 0 1)"
  by (simp add: norm_altitude_def normalize_value_def)

lemma set_altitude_eq:
  "set_altitude d w =
     Inr (w\<lparr>side_icon :=
              setPos (CANVAS_WIDTH / 2 - bounding_width (side_icon w) / 2)
                ((CANVAS_HEIGHT - GROUND_WIDTH / 2)
                 - constrain (- d / 20) 0 1 * (CANVAS_HEIGHT - GROUND_WIDTH / 2)
                 - bounding_height (side_icon w) * base_scale (side_icon w)
                 - (bounding_height (side_icon w)
                    - bounding_height (side_icon w) * base_scale (side_icon w)) / 2)
                (side_icon w),
            altitude_number := - d\<rparr>)"
  by (simp add: set_altitude_def normalize_value_def Let_def)

text \<open>
  C4, as the claim states it, fails at the input 10: \<open>set_altitude\<close> flips 10 to -10,
  which is below the range and is clamped to 0, not mapped to one half.
\<close>

theorem normalize_ten_counterexample:
  "norm_altitude 10 = Inr 0 \<and> norm_altitude 10 \<noteq> Inr (1 / 2)"
  by (simp add: norm_altitude_def normalize_value_def constrain_def)

text \<open>
  C4, amended: the normalisation in \<open>set_altitude\<close> first negates its input (the NED
  \<open>d\<close>) and then maps it linearly over 0 to 20 and clamps it to \<open>[0, 1]\<close>. So 0 gives 0,
  -20 gives 1, -30 gives 1 (clamped), -10 gives one half, and 10 gives 0 (clamped).
  \<open>set_altitude\<close> never fails, displays the negated input, and places the icon with this
  normalised value.
\<close>

theorem norm_altitude_boundaries:
  "norm_altitude d = Inr (constrain (- d / 20) 0 1)
   \<and> norm_altitude 0 = Inr 0
   \<and> norm_altitude (-20) = Inr 1
   \<and> norm_altitude (-30) = Inr 1
   \<and> norm_altitude (-10) = Inr (1 / 2)
   \<and> norm_altitude 10 = Inr 0
   \<and> (\<exists>w'. set_altitude d w = Inr w' \<and> altitude_number w' = - d
         \<and> item_y (side_icon w') =
             (CANVAS_HEIGHT - GROUND_WIDTH / 2)
             - constrain (- d / 20) 0 1 * (CANVAS_HEIGHT - GROUND_WIDTH / 2)
             - bounding_height (side_icon w) * base_scale (side_icon w)
             - (bounding_height (side_icon w)
                - bounding_height (side_icon w) * base_scale (side_icon w)) / 2)"
  by (simp add: norm_altitude_eq set_altitude_eq setPos_def) (simp add: constrain_def)

subsection \<open>The context menu\<close>

text \<open>
  C5: for every clicked scene point, what the context menu offers is decided by the
  airborne flag alone. Airborne: exactly a goto to the north and east of the point
  (\<open>-y / 50\<close>, \<open>x / 50\<close>), with \<open>d\<close> and \<open>hdg\<close> unset and \<open>relative\<close> false, and a land; no
  takeoff. Not airborne: exactly a takeoff to the configured height, whatever the point;
  no goto and no land.
\<close>

theorem context_menu_intents:
  "(drone_airborne w \<longrightarrow>
      map triggered (contextMenuEvent cfg (px, py) w) =
        [(''avr/fcm/action/goto/local'',
          Some (AVRFCMGoToLocal (- py / PIXELS_PER_METER) (px / PIXELS_PER_METER) None None False)),
         (''avr/fcm/action/land'', None)])
   \<and> (\<not> drone_airborne w \<longrightarrow>
      map triggered (contextMenuEvent cfg (px, py) w) =
        [(''avr/fcm/action/takeoff'', Some (AVRFCMActionTakeoff (takeoff_height cfg)))])
   \<and> (drone_airborne w = drone_airborne w' \<longrightarrow>
      contextMenuEvent cfg (px, py) w = contextMenuEvent cfg (px, py) w')
   \<and> (\<not> drone_airborne w \<longrightarrow>
      contextMenuEvent cfg (px, py) w = contextMenuEvent cfg (qx, qy) w)"
  by (simp add: contextMenuEvent_def local_coord_ne_def Let_def)

theorem context_menu_intents_witness:
  "drone_airborne ((MovingMapGraphicsWidget_init 100 100)\<lparr>drone_airborne := True\<rparr>)
   \<and> map triggered
        (contextMenuEvent
           example_config
           (500, -250) ((MovingMapGraphicsWidget_init 100 100)\<lparr>drone_airborne := True\<rparr>)) =
        [(''avr/fcm/action/goto/local'', Some (AVRFCMGoToLocal 5 10 None None False)),
         (''avr/fcm/action/land'', None)]
   \<and> \<not> drone_airborne (MovingMapGraphicsWidget_init 100 100)
   \<and> map triggered
        (contextMenuEvent
           example_config
           (500, -250) (MovingMapGraphicsWidget_init 100 100)) =
        [(''avr/fcm/action/takeoff'', Some (AVRFCMActionTakeoff 1))]"
  using context_menu_intents [of "(MovingMapGraphicsWidget_init 100 100)\<lparr>drone_airborne := True\<rparr>"
      example_config
      500 "-250"]
    context_menu_intents [of "MovingMapGraphicsWidget_init 100 100"
      example_config
      500 "-250"]
  by (simp add: PIXELS_PER_METER_def MovingMapGraphicsWidget_init_fields example_config_def)

subsection \<open>The track history\<close>

lemma update_drone_position_tracks:
  "tracks (update_drone_position cfg x y z w) =
     (if int (length (tracks w)) + 1 > max_moving_map_tracks cfg
      then tl (tracks w @ [drawn_track cfg x y z w])
      else tracks w @ [drawn_track cfg x y z w])"
  by (simp add: update_drone_position_def drawn_track_def Let_def split: prod.splits)

lemma update_drone_position_frame:
  "drone_airborne (update_drone_position cfg x y z w) = drone_airborne w"
  "follow_drone_flag (update_drone_position cfg x y z w) = follow_drone_flag w"
  "bounding_width (drone_icon (update_drone_position cfg x y z w)) = bounding_width (drone_icon w)"
  "bounding_height (drone_icon (update_drone_position cfg x y z w)) = bounding_height (drone_icon w)"
  "item_x (drone_icon (update_drone_position cfg x y z w)) =
     y * PIXELS_PER_METER - bounding_width (drone_icon w) / 2"
  "item_y (drone_icon (update_drone_position cfg x y z w)) =
     - x * PIXELS_PER_METER - bounding_height (drone_icon w) / 2"
  by (simp_all add: update_drone_position_def Let_def setPos_def new_drone_center_def
      split: prod.splits)

lemma update_drone_position_bound:
  assumes "int (length (tracks w)) \<le> max_moving_map_tracks cfg"
  shows "int (length (tracks (update_drone_position cfg x y z w))) \<le> max_moving_map_tracks cfg"
  using assms by (simp add: update_drone_position_tracks)

lemma update_drone_positions_bound:
  "int (length (tracks w)) \<le> max_moving_map_tracks cfg \<Longrightarrow>
   int (length (tracks (update_drone_positions cfg ps w))) \<le> max_moving_map_tracks cfg"
proof (induction ps arbitrary: w)
  case Nil
  then show ?case by simp
next
  case (Cons p ps)
  obtain x y z where p: "p = (x, y, z)" by (cases p) auto
  from Cons.prems have "int (length (tracks (update_drone_position cfg x y z w)))
      \<le> max_moving_map_tracks cfg"
    by (rule update_drone_position_bound)
  then show ?case using Cons.IH p by simp
qed

lemma update_drone_positions_fifo:
  "length (tracks w) \<le> nat (max_moving_map_tracks cfg) \<Longrightarrow>
   tracks (update_drone_positions cfg ps w) =
     drop (length (tracks w) + length ps - nat (max_moving_map_tracks cfg))
          (tracks w @ drawn_tracks cfg ps w)"
proof (induction ps arbitrary: w)
  case Nil
  then show ?case by simp
next
  case (Cons p ps)
  obtain x y z where p: "p = (x, y, z)" by (cases p) auto
  let ?w1 = "update_drone_position cfg x y z w"
  let ?t = "drawn_track cfg x y z w"
  let ?m = "nat (max_moving_map_tracks cfg)"
  show ?case
  proof (cases "int (length (tracks w)) + 1 > max_moving_map_tracks cfg")
    case True
    with Cons.prems have len: "length (tracks w) = ?m" by linarith
    from True have t1: "tracks ?w1 = tl (tracks w @ [?t])"
      by (simp add: update_drone_position_tracks)
    then have l1: "length (tracks ?w1) = ?m" using len by simp
    have "tracks (update_drone_positions cfg ps ?w1) =
        drop (length (tracks ?w1) + length ps - ?m) (tracks ?w1 @ drawn_tracks cfg ps ?w1)"
      by (rule Cons.IH) (simp add: l1)
    moreover have "length (tracks ?w1) + length ps - ?m = length ps"
      using l1 by simp
    ultimately have "tracks (update_drone_positions cfg ps ?w1) =
        drop (length ps) (tracks ?w1 @ drawn_tracks cfg ps ?w1)"
      by (simp only:)
    then have "tracks (update_drone_positions cfg ps ?w1) =
        drop (length ps) (tl (tracks w @ [?t]) @ drawn_tracks cfg ps ?w1)"
      by (simp only: t1)
    moreover have "tl (tracks w @ [?t]) @ drawn_tracks cfg ps ?w1 =
        drop 1 (tracks w @ ?t # drawn_tracks cfg ps ?w1)"
      by (cases "tracks w") simp_all
    ultimately have "tracks (update_drone_positions cfg ps ?w1) =
        drop (Suc (length ps)) (tracks w @ ?t # drawn_tracks cfg ps ?w1)"
      by (simp only: drop_drop) simp
    moreover have "length (tracks w) + length (p # ps) - ?m = Suc (length ps)"
      using len by simp
    ultimately show ?thesis using p by (simp only: update_drone_positions.simps drawn_tracks.simps)
  next
    case False
    then have t1: "tracks ?w1 = tracks w @ [?t]"
      by (simp add: update_drone_position_tracks)
    from False have lt: "length (tracks w) < ?m" by linarith
    have "tracks (update_drone_positions cfg ps ?w1) =
        drop (length (tracks ?w1) + length ps - ?m) (tracks ?w1 @ drawn_tracks cfg ps ?w1)"
      by (rule Cons.IH) (use lt t1 in simp)
    then show ?thesis using p t1 by simp
  qed
qed

lemma length_drawn_tracks: "length (drawn_tracks cfg ps w) = length ps"
  by (induction ps arbitrary: w) auto


text \<open>
  C2: for every configured \<open>max_moving_map_tracks \<ge> 0\<close> and every list of position
  samples handled from a widget with no tracks, the number of stored tracks after each
  update (after every prefix \<open>take k ps\<close> of the list) is at most
  \<open>max_moving_map_tracks\<close>; with \<open>max_moving_map_tracks = 0\<close> no track is ever stored.
\<close>

theorem track_bound:
  "0 \<le> max_moving_map_tracks cfg \<Longrightarrow> tracks w = [] \<Longrightarrow>
   int (length (tracks (update_drone_positions cfg (take k ps) w))) \<le> max_moving_map_tracks cfg
   \<and> (max_moving_map_tracks cfg = 0 \<longrightarrow> tracks (update_drone_positions cfg (take k ps) w) = [])"
proof -
  assume m: "0 \<le> max_moving_map_tracks cfg" and e: "tracks w = []"
  have "int (length (tracks (update_drone_positions cfg (take k ps) w)))
      \<le> max_moving_map_tracks cfg"
    by (rule update_drone_positions_bound) (simp add: e m)
  then show ?thesis by auto
qed

text \<open>
  C3: when more position samples than \<open>max_moving_map_tracks\<close> are handled from a
  widget with no tracks, the stored tracks are exactly the last \<open>max_moving_map_tracks\<close>
  of the lines drawn, in the order they were drawn. Each eviction removes the head of the
  list, the oldest track.
\<close>

theorem fifo_eviction:
  "tracks w = [] \<Longrightarrow> int (length ps) > max_moving_map_tracks cfg \<Longrightarrow>
   tracks (update_drone_positions cfg ps w) =
     drop (length ps - nat (max_moving_map_tracks cfg)) (drawn_tracks cfg ps w)
   \<and> length (tracks (update_drone_positions cfg ps w)) = nat (max_moving_map_tracks cfg)
   \<and> (int (length (tracks v)) + 1 > max_moving_map_tracks cfg \<longrightarrow>
        tracks (update_drone_position cfg x y z v) = tl (tracks v @ [drawn_track cfg x y z v]))"
proof -
  assume e: "tracks w = []" and n: "int (length ps) > max_moving_map_tracks cfg"
  have "tracks (update_drone_positions cfg ps w) =
      drop (length (tracks w) + length ps - nat (max_moving_map_tracks cfg))
        (tracks w @ drawn_tracks cfg ps w)"
    by (rule update_drone_positions_fifo) (simp add: e)
  then have d: "tracks (update_drone_positions cfg ps w) =
      drop (length ps - nat (max_moving_map_tracks cfg)) (drawn_tracks cfg ps w)"
    by (simp add: e)
  have "length (tracks (update_drone_positions cfg ps w)) = nat (max_moving_map_tracks cfg)"
    using n by (simp add: d length_drawn_tracks)
  with d show ?thesis by (simp add: update_drone_position_tracks)
qed

lemma drawn_track_fields:
  "line_x1 (drawn_track cfg x y z w) = item_x (drone_icon w) + bounding_width (drone_icon w) / 2"
  "line_y1 (drawn_track cfg x y z w) = item_y (drone_icon w) + bounding_height (drone_icon w) / 2"
  "line_x2 (drawn_track cfg x y z w) = y * PIXELS_PER_METER"
  "line_y2 (drawn_track cfg x y z w) = - x * PIXELS_PER_METER"
  "line_id (drawn_track cfg x y z w) = next_line_id (canvas w)"
  "pen_width (drawn_track cfg x y z w) = 3"
  by (simp_all add: drawn_track_def addLine_def Let_def new_drone_center_def split: prod.splits)

lemma update_position_local_eq:
  "update_position_local cfg (n, e, d) t =
     Inr (t\<lparr>moving_map_widget := update_drone_position cfg n e d (moving_map_widget t),
            altitude_indicator :=
              (altitude_indicator t)\<lparr>side_icon :=
                 setPos (CANVAS_WIDTH / 2 - bounding_width (side_icon (altitude_indicator t)) / 2)
                   ((CANVAS_HEIGHT - GROUND_WIDTH / 2)
                    - constrain (- d / 20) 0 1 * (CANVAS_HEIGHT - GROUND_WIDTH / 2)
                    - bounding_height (side_icon (altitude_indicator t))
                      * base_scale (side_icon (altitude_indicator t))
                    - (bounding_height (side_icon (altitude_indicator t))
                       - bounding_height (side_icon (altitude_indicator t))
                         * base_scale (side_icon (altitude_indicator t))) / 2)
                   (side_icon (altitude_indicator t)),
                altitude_number := - d\<rparr>\<rparr>)"
  by (simp add: update_position_local_def set_altitude_eq Let_def)

lemma last_tracks_update:
  "1 \<le> max_moving_map_tracks cfg \<Longrightarrow>
   tracks (update_drone_position cfg x y z w) \<noteq> []
   \<and> last (tracks (update_drone_position cfg x y z w)) = drawn_track cfg x y z w"
  by (cases "tracks w") (auto simp add: update_drone_position_tracks)

text \<open>
  C7: the position samples \<open>(n=5, e=0, d=-2)\<close> and then \<open>(n=5, e=10, d=-2)\<close>, handled
  by the tab from any state: both are handled without error, the line drawn for the
  second goes from the scene point \<open>(0, -250)\<close> to \<open>(500, -250)\<close> (at 50 pixels per
  meter), it is the newest stored track whenever at least one track is kept, and the
  altitude readout shows 2.
\<close>

theorem scenario_two_samples:
  "\<exists>t1 t2. update_position_local cfg (5, 0, -2) t = Inr t1
     \<and> update_position_local cfg (5, 10, -2) t1 = Inr t2
     \<and> position_stream cfg [(5, 0, -2), (5, 10, -2)] t = Inr t2
     \<and> (line_x1 (drawn_track cfg 5 10 (-2) (moving_map_widget t1)),
         line_y1 (drawn_track cfg 5 10 (-2) (moving_map_widget t1))) = (0, -250)
     \<and> (line_x2 (drawn_track cfg 5 10 (-2) (moving_map_widget t1)),
         line_y2 (drawn_track cfg 5 10 (-2) (moving_map_widget t1))) = (500, -250)
     \<and> (1 \<le> max_moving_map_tracks cfg \<longrightarrow>
          tracks (moving_map_widget t2) \<noteq> []
          \<and> last (tracks (moving_map_widget t2)) = drawn_track cfg 5 10 (-2) (moving_map_widget t1))
     \<and> altitude_number (altitude_indicator t2) = 2"
proof -
  obtain t1 where t1: "update_position_local cfg (5, 0, -2) t = Inr t1"
    and m1: "moving_map_widget t1 = update_drone_position cfg 5 0 (-2) (moving_map_widget t)"
    by (simp add: update_position_local_eq)
  obtain t2 where t2: "update_position_local cfg (5, 10, -2) t1 = Inr t2"
    and m2: "moving_map_widget t2 = update_drone_position cfg 5 10 (-2) (moving_map_widget t1)"
    and a2: "altitude_number (altitude_indicator t2) = 2"
    by (simp add: update_position_local_eq)
  have s: "position_stream cfg [(5, 0, -2), (5, 10, -2)] t = Inr t2"
    by (simp add: t1 t2)
  have c1: "line_x1 (drawn_track cfg 5 10 (-2) (moving_map_widget t1)) = 0"
    "line_y1 (drawn_track cfg 5 10 (-2) (moving_map_widget t1)) = -250"
    "line_x2 (drawn_track cfg 5 10 (-2) (moving_map_widget t1)) = 500"
    "line_y2 (drawn_track cfg 5 10 (-2) (moving_map_widget t1)) = -250"
    by (simp_all add: drawn_track_fields m1 update_drone_position_frame PIXELS_PER_METER_def)
  have l: "1 \<le> max_moving_map_tracks cfg \<longrightarrow>
      tracks (moving_map_widget t2) \<noteq> []
      \<and> last (tracks (moving_map_widget t2)) = drawn_track cfg 5 10 (-2) (moving_map_widget t1)"
    using last_tracks_update [of cfg 5 10 "-2" "moving_map_widget t1"] by (simp add: m2)
  from t1 t2 s c1 l a2 show ?thesis by blast
qed




theorem track_bound_witness:
  "(0::int) \<le> 1 \<and> tracks (MovingMapGraphicsWidget_init 100 100) = []
   \<and> int (length (tracks (update_drone_positions
         (example_config\<lparr>max_moving_map_tracks := 1\<rparr>)
         [(5, 0, -2), (5, 10, -2)] (MovingMapGraphicsWidget_init 100 100)))) \<le> 1
   \<and> tracks (update_drone_positions
         (example_config\<lparr>max_moving_map_tracks := 0\<rparr>)
         [(5, 0, -2), (5, 10, -2)] (MovingMapGraphicsWidget_init 100 100)) = []"
  using track_bound [of "example_config\<lparr>max_moving_map_tracks := 1\<rparr>"
      "MovingMapGraphicsWidget_init 100 100" 2 "[(5, 0, -2), (5, 10, -2)]"]
    track_bound [of "example_config\<lparr>max_moving_map_tracks := 0\<rparr>"
      "MovingMapGraphicsWidget_init 100 100" 2 "[(5, 0, -2), (5, 10, -2)]"]
  by (simp add: MovingMapGraphicsWidget_init_fields example_config_def)

theorem fifo_eviction_witness:
  "tracks (MovingMapGraphicsWidget_init 100 100) = []
   \<and> int (length ([(5, 0, -2), (5, 10, -2)] :: (real \<times> real \<times> real) list)) > 1
   \<and> map (\<lambda>t. (line_x1 t, line_y1 t, line_x2 t, line_y2 t))
        (tracks (update_drone_positions
           (example_config\<lparr>max_moving_map_tracks := 1\<rparr>)
           [(5, 0, -2), (5, 10, -2)] (MovingMapGraphicsWidget_init 100 100)))
      = [(0, -250, 500, -250)]"
  using fifo_eviction [where w = "MovingMapGraphicsWidget_init 100 100"
      and ps = "[(5, 0, -2), (5, 10, -2)]"
      and cfg = "example_config\<lparr>max_moving_map_tracks := 1\<rparr>"]
  by (simp add: MovingMapGraphicsWidget_init_fields drawn_track_fields
      update_drone_position_frame PIXELS_PER_METER_def example_config_def)

theorem scenario_two_samples_witness:
  "1 \<le> max_moving_map_tracks example_config
   \<and> (\<exists>t2. position_stream example_config [(5, 0, -2), (5, 10, -2)] example_tab = Inr t2
        \<and> altitude_number (altitude_indicator t2) = 2
        \<and> line_x1 (last (tracks (moving_map_widget t2))) = 0
        \<and> line_y1 (last (tracks (moving_map_widget t2))) = -250
        \<and> line_x2 (last (tracks (moving_map_widget t2))) = 500
        \<and> line_y2 (last (tracks (moving_map_widget t2))) = -250)"
proof -
  have m: "1 \<le> max_moving_map_tracks example_config"
    by (simp add: example_config_def)
  with scenario_two_samples [of example_config example_tab] show ?thesis
    by auto
qed

subsection \<open>Clearing the tracks and resetting the map\<close>

lemma scene_lines_remove_all:
  "scene_lines (foldl (\<lambda>sc track. removeItem track sc) sc ts) =
     filter (\<lambda>l. line_id l \<notin> line_id ` set ts) (scene_lines sc)"
  by (induction ts arbitrary: sc) (auto simp add: removeItem_def intro: filter_cong)

lemma next_line_id_remove_all:
  "next_line_id (foldl (\<lambda>sc track. removeItem track sc) sc ts) = next_line_id sc"
  by (induction ts arbitrary: sc) (auto simp add: removeItem_def)

lemma update_drone_position_canvas:
  "0 < max_moving_map_tracks cfg \<Longrightarrow> tracks w = [] \<Longrightarrow>
   scene_lines (canvas (update_drone_position cfg x y z w)) =
     scene_lines (canvas w) @ [drawn_track cfg x y z w]"
  by (simp add: update_drone_position_def drawn_track_def addLine_def Let_def split: prod.splits)

text \<open>
  C9, as the claim states it, fails: after one position update there is a stored track,
  and \<open>clear_tracks\<close> returns \<open>None\<close>, not the list of the tracks it removed.
\<close>

theorem clear_tracks_returns_none_counterexample:
  "tracks example_map \<noteq> []
   \<and> fst (clear_tracks example_map) = None
   \<and> fst (clear_tracks example_map) \<noteq> Some (tracks example_map)"
  by (simp add: clear_tracks_def update_drone_position_tracks MovingMapGraphicsWidget_init_fields
      example_config_def example_map_def)

text \<open>
  C9, amended: for every state of the map widget, \<open>clear_tracks\<close> leaves no stored
  track (the count is 0), itself removes every stored track from the scene (the lines of
  the scene that remain are those that were not stored tracks), changes nothing else of
  the widget, and returns nothing (\<open>None\<close>).
\<close>

theorem clear_tracks_effect:
  "fst (clear_tracks w) = None
   \<and> tracks (snd (clear_tracks w)) = []
   \<and> length (tracks (snd (clear_tracks w))) = 0
   \<and> scene_lines (canvas (snd (clear_tracks w))) =
       filter (\<lambda>l. line_id l \<notin> line_id ` set (tracks w)) (scene_lines (canvas w))
   \<and> (\<forall>t \<in> set (tracks w). t \<notin> set (scene_lines (canvas (snd (clear_tracks w)))))
   \<and> drone_icon (snd (clear_tracks w)) = drone_icon w
   \<and> drone_airborne (snd (clear_tracks w)) = drone_airborne w
   \<and> follow_drone_flag (snd (clear_tracks w)) = follow_drone_flag w
   \<and> view (snd (clear_tracks w)) = view w"
  by (auto simp add: clear_tracks_def scene_lines_remove_all)

theorem clear_tracks_effect_witness:
  "set (tracks example_map) \<noteq> {}
   \<and> tracks (snd (clear_tracks example_map)) = []
   \<and> scene_lines (canvas (snd (clear_tracks example_map))) = []"
  using clear_tracks_effect [of example_map]
  by (simp add: update_drone_position_tracks update_drone_position_canvas
      MovingMapGraphicsWidget_init_fields example_config_def example_map_def)

lemma MovingMapGraphicsWidget_reset_eq:
  "MovingMapGraphicsWidget_reset w =
     w\<lparr>drone_icon := (drone_icon w)\<lparr>item_x := - bounding_width (drone_icon w) / 2,
                                     item_y := - bounding_height (drone_icon w) / 2,
                                     item_rotation := 0\<rparr>,
       canvas := foldl (\<lambda>sc track. removeItem track sc) (canvas w) (tracks w),
       tracks := []\<rparr>"
  by (simp add: MovingMapGraphicsWidget_reset_def clear_tracks_def Let_def setPos_def
      setRotation_def)

text \<open>
  C10: for every state, \<open>reset\<close> of the map widget puts the drone icon's corner at minus
  half of its bounding rectangle, so that its centre is the origin, sets its rotation to
  0 and clears all tracks (removing them from the scene), and leaves the follow flag and
  the airborne flag as they are. \<open>clear\<close> of the tab never fails, resets the map widget in
  this way and leaves the tab's own follow flag and button text as they are.
\<close>

theorem reset_frame:
  "item_x (drone_icon (MovingMapGraphicsWidget_reset w)) = - bounding_width (drone_icon w) / 2
   \<and> item_y (drone_icon (MovingMapGraphicsWidget_reset w)) = - bounding_height (drone_icon w) / 2
   \<and> item_x (drone_icon (MovingMapGraphicsWidget_reset w))
       + bounding_width (drone_icon (MovingMapGraphicsWidget_reset w)) / 2 = 0
   \<and> item_y (drone_icon (MovingMapGraphicsWidget_reset w))
       + bounding_height (drone_icon (MovingMapGraphicsWidget_reset w)) / 2 = 0
   \<and> item_rotation (drone_icon (MovingMapGraphicsWidget_reset w)) = 0
   \<and> tracks (MovingMapGraphicsWidget_reset w) = []
   \<and> scene_lines (canvas (MovingMapGraphicsWidget_reset w)) =
       filter (\<lambda>l. line_id l \<notin> line_id ` set (tracks w)) (scene_lines (canvas w))
   \<and> follow_drone_flag (MovingMapGraphicsWidget_reset w) = follow_drone_flag w
   \<and> drone_airborne (MovingMapGraphicsWidget_reset w) = drone_airborne w
   \<and> (\<exists>t'. clear t = Inr t'
         \<and> moving_map_widget t' = MovingMapGraphicsWidget_reset (moving_map_widget t)
         \<and> tab_follow_drone t' = tab_follow_drone t
         \<and> follow_drone_button_text t' = follow_drone_button_text t)"
  by (simp add: MovingMapGraphicsWidget_reset_eq scene_lines_remove_all clear_def Let_def
      DroneAltitudeWidget_reset_def set_altitude_eq)

theorem reset_frame_witness:
  "item_x (drone_icon (MovingMapGraphicsWidget_reset (update_drone_attitude 90 example_map))) = -50
   \<and> item_rotation (drone_icon (MovingMapGraphicsWidget_reset (update_drone_attitude 90 example_map))) = 0
   \<and> follow_drone_flag (MovingMapGraphicsWidget_reset (update_drone_attitude 90 example_map)) = True"
  using reset_frame [of "update_drone_attitude 90 example_map"]
  by (simp add: update_drone_attitude_def setRotation_def update_drone_position_frame
      MovingMapGraphicsWidget_init_fields example_map_def)

end
